theory Spec2Isabelle
  imports Complex_Main
begin

section \<open>Python values and exceptions\<close>

text \<open>
  The configuration values that reach \<^verbatim>\<open>ctapipe/core/traits.py\<close> are dynamically typed.
  They are modelled by a datatype of the Python values the code distinguishes with
  \<^verbatim>\<open>isinstance\<close>: \<^verbatim>\<open>None\<close>, \<^verbatim>\<open>bool\<close>, \<^verbatim>\<open>int\<close> (unbounded), \<^verbatim>\<open>float\<close>, \<^verbatim>\<open>str\<close>,
  \<^verbatim>\<open>tuple\<close> and \<^verbatim>\<open>list\<close>. A finite float is represented by the rational number it
  denotes; NaN and the infinities are not represented.
\<close>

datatype pyval =
    PNone
  | PBool bool
  | PInt int
  | PFloat rat
  | PStr string
  | PTuple "pyval list"
  | PList "pyval list"

text \<open>
  Exceptions are values. The constructor of \<open>error\<close> is the Python exception class,
  its argument names the \<^verbatim>\<open>raise\<close> site. In the words of the specification:
  \<open>TraitError\<close> is both ValidationError and PathConstraintError (the four
  constructors that carry a path are the four messages of the path constraints),
  \<open>ValueError NoSubarrayAttached\<close> is NotBound, \<open>KeyError NoGlobalValue\<close> is NoDefault,
  \<open>KeyError NoValueForTelId\<close> and \<open>KeyError NoValueForType\<close> are UnresolvedEntity,
  \<open>ValueError UnknownTelescopeType\<close> is UnknownType.
\<close>

datatype trait_error =
    InvalidValue
  | PatternNotTriple
  | CommandNotString
  | CommandNotTypeOrId
  | TypeArgNotString
  | IdArgNotInt
  | DoesNotExist string
  | MustNotExist string
  | MustNotBeDirectory string
  | MustNotBeFile string

datatype value_error =
    NoSubarrayAttached
  | UnknownTelescopeType
  | UnrecognizedCommand
  | InvalidIntLiteral

datatype key_error =
    NoGlobalValue
  | NoValueForTelId
  | NoValueForType

datatype error =
    TraitError trait_error
  | ValueError value_error
  | KeyError key_error
  | TypeError
  | OverflowError
  | RuntimeError
  | AttributeError
  | CollaboratorError

section \<open>Library functions used by the code\<close>

subsection \<open>\<^verbatim>\<open>fnmatch.fnmatch\<close>\<close>

text \<open>
  \<^verbatim>\<open>fnmatch(name, pat)\<close> of the Python standard library on a POSIX platform (where
  \<^verbatim>\<open>os.path.normcase\<close> is the identity, so matching is case-sensitive): \<^verbatim>\<open>*\<close> matches any
  run of characters, \<^verbatim>\<open>?\<close> any single character, \<^verbatim>\<open>[seq]\<close> any character of \<^verbatim>\<open>seq\<close>
  (with ranges \<^verbatim>\<open>a-z\<close>), \<^verbatim>\<open>[!seq]\<close> any character not in \<^verbatim>\<open>seq\<close>; a \<^verbatim>\<open>[\<close> that is never
  closed stands for itself. The whole name must match.
\<close>

definition char_code :: "char \<Rightarrow> nat" where
  "char_code c = of_char c"

fun in_class :: "char \<Rightarrow> string \<Rightarrow> bool" where
  "in_class x (a # d # b # rest) =
     (if d = CHR ''-'' then (char_code a \<le> char_code x \<and> char_code x \<le> char_code b) \<or> in_class x rest
      else x = a \<or> in_class x (d # b # rest))"
| "in_class x (a # rest) = (x = a \<or> in_class x rest)"
| "in_class x [] = False"

definition bracket :: "string \<Rightarrow> (bool \<times> string \<times> string) option" where
  "bracket p =
     (let neg = (case p of [] \<Rightarrow> False | c # _ \<Rightarrow> c = CHR ''!'');
          q = (if neg then tl p else p);
          first = (case q of [] \<Rightarrow> [] | c # _ \<Rightarrow> if c = CHR '']'' then [c] else []);
          r = (if first = [] then q else tl q)
      in if CHR '']'' \<in> set r
         then Some (neg, first @ takeWhile (\<lambda>c. c \<noteq> CHR '']'') r,
                    tl (dropWhile (\<lambda>c. c \<noteq> CHR '']'') r))
         else None)"

function glob :: "string \<Rightarrow> string \<Rightarrow> bool" where
  "glob [] s = (s = [])"
| "glob (c # p) [] = (c = CHR ''*'' \<and> glob p [])"
| "glob (c # p) (x # s) =
     (if c = CHR ''*'' then glob p (x # s) \<or> glob (c # p) s
      else if c = CHR ''?'' then glob p s
      else if c = CHR ''[''
        then (case bracket p of
                None \<Rightarrow> x = CHR ''['' \<and> glob p s
              | Some (neg, items, rest) \<Rightarrow> (in_class x items \<noteq> neg) \<and> glob rest s)
      else x = c \<and> glob p s)"
  by pat_completeness auto
termination
  by (relation "measures [\<lambda>(p, s). length s, \<lambda>(p, s). length p]") auto

definition fnmatch :: "string \<Rightarrow> string \<Rightarrow> bool" where
  "fnmatch name pat = glob pat name"

subsection \<open>\<^verbatim>\<open>int(x)\<close>\<close>

text \<open>
  The builtin \<^verbatim>\<open>int\<close> applied to a value: an \<^verbatim>\<open>int\<close> is returned, a \<^verbatim>\<open>bool\<close> is 0 or 1,
  a float is truncated towards zero, a string is parsed as a decimal literal (surrounding
  whitespace, an optional sign, digits with single underscores between them) or raises
  \<^verbatim>\<open>ValueError\<close>; \<^verbatim>\<open>None\<close>, tuples and lists raise \<^verbatim>\<open>TypeError\<close>.
  A character of a string is its code point below 256. The whitespace that is stripped is
  the ASCII whitespace (9 to 13 and 32) and, of the other characters, those that are
  Unicode whitespace (133 and 160). A literal of more than 4300 digits is refused with
  \<^verbatim>\<open>ValueError\<close> (the default limit of CPython 3.11 and later).
\<close>

definition is_space :: "char \<Rightarrow> bool" where
  "is_space c = (let n = char_code c in (9 \<le> n \<and> n \<le> 13) \<or> n = 32 \<or> n = 133 \<or> n = 160)"

definition is_digit :: "char \<Rightarrow> bool" where
  "is_digit c = (char_code CHR ''0'' \<le> char_code c \<and> char_code c \<le> char_code CHR ''9'')"

definition digit_val :: "char \<Rightarrow> int" where
  "digit_val c = int (char_code c - char_code CHR ''0'')"

fun parse_digits :: "string \<Rightarrow> int \<Rightarrow> int option" where
  "parse_digits [] acc = None"
| "parse_digits [c] acc = (if is_digit c then Some (10 * acc + digit_val c) else None)"
| "parse_digits (c # d # cs) acc =
     (if is_digit c
      then (if d = CHR ''_'' then parse_digits cs (10 * acc + digit_val c)
            else parse_digits (d # cs) (10 * acc + digit_val c))
      else None)"

definition strip :: "string \<Rightarrow> string" where
  "strip s = rev (dropWhile is_space (rev (dropWhile is_space s)))"

definition int_max_str_digits :: nat where
  "int_max_str_digits = 4300"

definition int_of_str :: "string \<Rightarrow> int option" where
  "int_of_str s =
     (if length (filter is_digit s) > int_max_str_digits then None
      else
        (case strip s of
           [] \<Rightarrow> None
         | c # cs \<Rightarrow>
             if c = CHR ''-'' then map_option uminus (parse_digits cs 0)
             else if c = CHR ''+'' then parse_digits cs 0
             else parse_digits (c # cs) 0))"

definition truncate :: "rat \<Rightarrow> int" where
  "truncate q = (if 0 \<le> q then \<lfloor>q\<rfloor> else \<lceil>q\<rceil>)"

fun py_int :: "pyval \<Rightarrow> error + int" where
  "py_int (PInt n) = Inr n"
| "py_int (PBool b) = Inr (if b then 1 else 0)"
| "py_int (PFloat q) = Inr (truncate q)"
| "py_int (PStr s) = (case int_of_str s of None \<Rightarrow> Inl (ValueError InvalidIntLiteral) | Some n \<Rightarrow> Inr n)"
| "py_int PNone = Inl TypeError"
| "py_int (PTuple xs) = Inl TypeError"
| "py_int (PList xs) = Inl TypeError"

section \<open>The telescope catalogue\<close>

text \<open>
  \<^verbatim>\<open>SubarrayDescription\<close> is a collaborator whose code is elsewhere. The lookup uses two
  things of it: \<^verbatim>\<open>subarray.telescope_types\<close>, of which only \<^verbatim>\<open>str(t)\<close> is read, and
  \<^verbatim>\<open>subarray.get_tel_ids_for_type(tel_type)\<close>. The record holds the type strings in the
  order of iteration and the telescope ids of each type string.
\<close>

record subarray =
  telescope_types :: "string list"
  get_tel_ids_for_type :: "string \<Rightarrow> int list"

section \<open>\<^verbatim>\<open>TelescopeParameterLookup\<close>\<close>

text \<open>A pattern is the tuple \<^verbatim>\<open>(command, argument, value)\<close>.\<close>

type_synonym pattern = "pyval \<times> pyval \<times> pyval"

text \<open>
  The attributes of \<^verbatim>\<open>TelescopeParameterLookup\<close>. \<open>None\<close> is Python's \<^verbatim>\<open>None\<close>, and
  \<^verbatim>\<open>Undefined\<close> for \<open>subarray_global_value\<close>.
\<close>

record tel_lookup =
  telescope_parameter_list :: "pattern list"
  value_for_tel_id :: "(int \<rightharpoonup> pyval) option"
  value_for_type :: "(string \<rightharpoonup> pyval) option"
  lookup_subarray :: "subarray option"
  subarray_global_value :: "pyval option"
  type_strs :: "string set option"

text \<open>\<^verbatim>\<open>__init__\<close>: the loop keeps the value of the last pattern whose argument is \<^verbatim>\<open>"*"\<close>.\<close>

fun init_global :: "pattern list \<Rightarrow> pyval option \<Rightarrow> pyval option" where
  "init_global [] g = g"
| "init_global ((command, arg, val) # params) g =
     init_global params (if arg = PStr ''*'' then Some val else g)"

definition new_lookup :: "pattern list \<Rightarrow> tel_lookup" where
  "new_lookup params =
     \<lparr> telescope_parameter_list = params,
       value_for_tel_id = None,
       value_for_type = None,
       lookup_subarray = None,
       subarray_global_value = init_global params None,
       type_strs = None \<rparr>"

text \<open>
  \<^verbatim>\<open>attach_subarray\<close>. The two dictionaries are reset, then the patterns are replayed in
  list order. The inner loops of a \<^verbatim>\<open>"type"\<close> pattern are \<open>set_ids\<close> and \<open>set_types\<close>.
  An exception leaves the object as the loop had updated it so far, so the state is
  returned together with the exception, if any.
\<close>

type_synonym tables = "(string \<rightharpoonup> pyval) \<times> (int \<rightharpoonup> pyval)"

fun set_ids :: "int list \<Rightarrow> pyval \<Rightarrow> (int \<rightharpoonup> pyval) \<Rightarrow> (int \<rightharpoonup> pyval)" where
  "set_ids [] v im = im"
| "set_ids (tel_id # ids) v im = set_ids ids v (im(tel_id \<mapsto> v))"

fun set_types :: "subarray \<Rightarrow> string list \<Rightarrow> pyval \<Rightarrow> tables \<Rightarrow> tables" where
  "set_types sub [] v tabs = tabs"
| "set_types sub (tel_type # ts) v (tm, im) =
     set_types sub ts v (tm(tel_type \<mapsto> v), set_ids (get_tel_ids_for_type sub tel_type) v im)"

definition matched_tel_types :: "subarray \<Rightarrow> string \<Rightarrow> string list" where
  "matched_tel_types sub pat = filter (\<lambda>t. fnmatch t pat) (telescope_types sub)"

fun replay :: "subarray \<Rightarrow> pattern list \<Rightarrow> tables \<Rightarrow> error option \<times> tables" where
  "replay sub [] tabs = (None, tabs)"
| "replay sub ((command, arg, val) # rest) (tm, im) =
     (if command = PStr ''type'' then
        (case arg of
           PStr pat \<Rightarrow>
             replay sub rest (set_types sub (matched_tel_types sub pat) val (tm, im))
         | _ \<Rightarrow> if telescope_types sub = [] then replay sub rest (tm, im)
                else (Some TypeError, (tm, im)))
      else if command = PStr ''id'' then
        (case py_int arg of
           Inl e \<Rightarrow> (Some e, (tm, im))
         | Inr n \<Rightarrow> replay sub rest (tm, im(n \<mapsto> val)))
      else (Some (ValueError UnrecognizedCommand), (tm, im)))"

definition attach_subarray :: "tel_lookup \<Rightarrow> subarray \<Rightarrow> error option \<times> tel_lookup" where
  "attach_subarray lk sub =
     (case replay sub (telescope_parameter_list lk) (Map.empty, Map.empty) of
        (err, (tm, im)) \<Rightarrow>
          (err, lk\<lparr> lookup_subarray := Some sub,
                    value_for_tel_id := Some im,
                    value_for_type := Some tm,
                    type_strs := Some (set (telescope_types sub)) \<rparr>))"

text \<open>
  \<^verbatim>\<open>__getitem__\<close>. The key is \<^verbatim>\<open>None\<close>, an \<^verbatim>\<open>int\<close> (a \<^verbatim>\<open>bool\<close> is an \<^verbatim>\<open>int\<close>: \<^verbatim>\<open>True\<close> is
  the key 1), a \<^verbatim>\<open>str\<close>, or anything else, which ends in \<^verbatim>\<open>TypeError\<close>.
\<close>

definition get_tel_id :: "(int \<rightharpoonup> pyval) \<Rightarrow> int \<Rightarrow> error + pyval" where
  "get_tel_id im n = (case im n of Some v \<Rightarrow> Inr v | None \<Rightarrow> Inl (KeyError NoValueForTelId))"

definition getitem :: "tel_lookup \<Rightarrow> pyval \<Rightarrow> error + pyval" where
  "getitem lk tel =
     (if tel = PNone then
        (case subarray_global_value lk of
           Some v \<Rightarrow> Inr v
         | None \<Rightarrow> Inl (KeyError NoGlobalValue))
      else
        (case value_for_tel_id lk of
           None \<Rightarrow> Inl (ValueError NoSubarrayAttached)
         | Some im \<Rightarrow>
             (case tel of
                PInt n \<Rightarrow> get_tel_id im n
              | PBool b \<Rightarrow> get_tel_id im (if b then 1 else 0)
              | PStr s \<Rightarrow>
                  (case type_strs lk of
                     None \<Rightarrow> Inl TypeError
                   | Some known \<Rightarrow>
                       if s \<notin> known then Inl (ValueError UnknownTelescopeType)
                       else (case value_for_type lk of
                               None \<Rightarrow> Inl TypeError
                             | Some tm \<Rightarrow>
                                 (case tm s of
                                    Some v \<Rightarrow> Inr v
                                  | None \<Rightarrow> Inl (KeyError NoValueForType))))
              | _ \<Rightarrow> Inl TypeError)))"

section \<open>\<^verbatim>\<open>TelescopePatternList\<close>\<close>

text \<open>
  The list of patterns with its two extra attributes \<^verbatim>\<open>_lookup\<close> and \<^verbatim>\<open>_subarray\<close>, both
  \<^verbatim>\<open>None\<close> after construction.
\<close>

record pattern_list =
  data :: "pattern list"
  lookup :: "tel_lookup option"
  pl_subarray :: "subarray option"

definition empty_pattern_list :: pattern_list where
  "empty_pattern_list = \<lparr> data = [], lookup = None, pl_subarray = None \<rparr>"

text \<open>The property \<^verbatim>\<open>tel\<close>.\<close>

definition tel :: "pattern_list \<Rightarrow> error + tel_lookup" where
  "tel pl = (case lookup pl of Some lk \<Rightarrow> Inr lk | None \<Rightarrow> Inl RuntimeError)"

text \<open>
  A value can be hashed unless it is a list or a tuple with a component that cannot be
  hashed.
\<close>

fun hashable :: "pyval \<Rightarrow> bool" where
  "hashable (PList xs) = False"
| "hashable (PTuple xs) = list_all hashable xs"
| "hashable v = True"

text \<open>
  \<^verbatim>\<open>single_to_pattern\<close> on a 3-tuple: it is kept when its first component is \<^verbatim>\<open>"type"\<close> or
  \<^verbatim>\<open>"id"\<close>, and wrapped into a default pattern otherwise. The test is a membership test in
  a set, which hashes the first component and raises \<^verbatim>\<open>TypeError\<close> when it cannot be hashed.
\<close>

definition single_to_pattern :: "pattern \<Rightarrow> error + pattern" where
  "single_to_pattern value =
     (case value of (command, arg, val) \<Rightarrow>
        if \<not> hashable command then Inl TypeError
        else if command \<notin> {PStr ''type'', PStr ''id''}
        then Inr (PStr ''type'', PStr ''*'', PTuple [command, arg, val])
        else Inr value)"

definition append :: "pattern_list \<Rightarrow> pattern \<Rightarrow> error + pattern_list" where
  "append pl value =
     (case single_to_pattern value of
        Inl e \<Rightarrow> Inl e
      | Inr p \<Rightarrow> Inr (pl\<lparr> data := data pl @ [p] \<rparr>))"

text \<open>
  \<^verbatim>\<open>TelescopePatternList.attach_subarray\<close>: \<^verbatim>\<open>_subarray\<close> is assigned first, then the call
  goes to \<^verbatim>\<open>self._lookup\<close>, which fails with \<^verbatim>\<open>AttributeError\<close> when that is \<^verbatim>\<open>None\<close>.
\<close>

definition pl_attach_subarray :: "pattern_list \<Rightarrow> subarray \<Rightarrow> error option \<times> pattern_list" where
  "pl_attach_subarray pl sub =
     (case lookup pl of
        None \<Rightarrow> (Some AttributeError, pl\<lparr> pl_subarray := Some sub \<rparr>)
      | Some lk \<Rightarrow>
          (case attach_subarray lk sub of
             (err, lk') \<Rightarrow> (err, pl\<lparr> pl_subarray := Some sub, lookup := Some lk' \<rparr>)))"

section \<open>\<^verbatim>\<open>TelescopeParameter\<close>\<close>

text \<open>
  The trait holds the inner trait, of which \<^verbatim>\<open>validate\<close> is used, and \<^verbatim>\<open>allow_none\<close>.
  The inner trait is a collaborator (a \<^verbatim>\<open>traitlets.TraitType\<close>), so it is a parameter.
\<close>

record telescope_parameter =
  trait_validate :: "pyval \<Rightarrow> error + pyval"
  tp_allow_none :: bool

definition validate_entry :: "telescope_parameter \<Rightarrow> pyval \<Rightarrow> error + pyval" where
  "validate_entry tp value =
     (if value = PNone \<and> tp_allow_none tp then Inr PNone else trait_validate tp value)"

text \<open>
  The value handed to \<^verbatim>\<open>validate\<close> and \<^verbatim>\<open>set\<close> is a plain Python value or a
  \<^verbatim>\<open>TelescopePatternList\<close>.
\<close>

datatype raw = Py pyval | Patterns pattern_list

text \<open>\<^verbatim>\<open>isinstance(value, (list, List, UserList, TelescopePatternList))\<close>: a tuple is not a list.\<close>

fun is_list :: "raw \<Rightarrow> bool" where
  "is_list (Patterns pl) = True"
| "is_list (Py (PList xs)) = True"
| "is_list (Py v) = False"

text \<open>The items that \<^verbatim>\<open>for pattern in value\<close> visits.\<close>

fun items :: "raw \<Rightarrow> pyval list" where
  "items (Patterns pl) = map (\<lambda>(command, arg, val). PTuple [command, arg, val]) (data pl)"
| "items (Py (PList xs)) = xs"
| "items (Py v) = []"

text \<open>
  \<^verbatim>\<open>len(pattern) != 3\<close> followed by \<^verbatim>\<open>command, arg, val = pattern\<close>. \<^verbatim>\<open>len\<close> raises
  \<^verbatim>\<open>TypeError\<close> on a value without length; a string of three characters unpacks into its
  characters.
\<close>

fun py_len :: "pyval \<Rightarrow> error + nat" where
  "py_len (PTuple xs) = Inr (length xs)"
| "py_len (PList xs) = Inr (length xs)"
| "py_len (PStr s) = Inr (length s)"
| "py_len v = Inl TypeError"

fun elements :: "pyval \<Rightarrow> pyval list" where
  "elements (PTuple xs) = xs"
| "elements (PList xs) = xs"
| "elements (PStr s) = map (\<lambda>c. PStr [c]) s"
| "elements v = []"

definition unpack :: "pyval \<Rightarrow> error + pattern" where
  "unpack pattern =
     (case py_len pattern of
        Inl e \<Rightarrow> Inl e
      | Inr n \<Rightarrow>
          (case elements pattern of
             [command, arg, val] \<Rightarrow> Inr (command, arg, val)
           | _ \<Rightarrow> Inl (TraitError PatternNotTriple)))"

text \<open>The body of the loop of \<^verbatim>\<open>validate\<close> up to the normalised tuple.\<close>

definition validate_pattern :: "telescope_parameter \<Rightarrow> pyval \<Rightarrow> error + pattern" where
  "validate_pattern tp pattern =
     (case unpack pattern of
        Inl e \<Rightarrow> Inl e
      | Inr (command, arg, val) \<Rightarrow>
          (case validate_entry tp val of
             Inl e \<Rightarrow> Inl e
           | Inr val1 \<Rightarrow>
               (case command of
                  PStr c \<Rightarrow>
                    if c \<notin> {''type'', ''id''} then Inl (TraitError CommandNotTypeOrId)
                    else if c = ''type'' then
                      (case arg of
                         PStr pat \<Rightarrow>
                           (case validate_entry tp val1 of
                              Inl e \<Rightarrow> Inl e
                            | Inr val2 \<Rightarrow> Inr (command, arg, val2))
                       | _ \<Rightarrow> Inl (TraitError TypeArgNotString))
                    else
                      (case py_int arg of
                         Inl (ValueError ve) \<Rightarrow> Inl (TraitError IdArgNotInt)
                       | Inl e \<Rightarrow> Inl e
                       | Inr n \<Rightarrow>
                           (case validate_entry tp val1 of
                              Inl e \<Rightarrow> Inl e
                            | Inr val2 \<Rightarrow> Inr (command, PInt n, val2)))
                | _ \<Rightarrow> Inl (TraitError CommandNotString))))"

text \<open>
  The loop of \<^verbatim>\<open>validate\<close>: each round appends the normalised pattern, replaces \<^verbatim>\<open>_lookup\<close>
  by a new lookup of the patterns so far and, when the value handed in is a
  \<^verbatim>\<open>TelescopePatternList\<close> with a subarray (\<open>sub\<close>), attaches that subarray.
\<close>

fun validate_loop ::
  "telescope_parameter \<Rightarrow> subarray option \<Rightarrow> pyval list \<Rightarrow> pattern_list \<Rightarrow> error + pattern_list"
where
  "validate_loop tp sub [] normalized_value = Inr normalized_value"
| "validate_loop tp sub (pattern # rest) normalized_value =
     (case validate_pattern tp pattern of
        Inl e \<Rightarrow> Inl e
      | Inr p \<Rightarrow>
          (case append normalized_value p of
             Inl e \<Rightarrow> Inl e
           | Inr nv1 \<Rightarrow>
               (let nv2 = nv1\<lparr> lookup := Some (new_lookup (data nv1)) \<rparr>
                in case sub of
                     None \<Rightarrow> validate_loop tp sub rest nv2
                   | Some s \<Rightarrow>
                       (case pl_attach_subarray nv2 s of
                          (Some e, nv3) \<Rightarrow> Inl e
                        | (None, nv3) \<Rightarrow> validate_loop tp sub rest nv3))))"

definition validate :: "telescope_parameter \<Rightarrow> raw \<Rightarrow> error + pattern_list" where
  "validate tp value =
     (if \<not> is_list value then
        (case value of
           Py v \<Rightarrow>
             (case validate_entry tp v of
                Inl e \<Rightarrow> Inl e
              | Inr v' \<Rightarrow>
                  validate_loop tp None [PTuple [PStr ''type'', PStr ''*'', v']] empty_pattern_list)
         | Patterns pl \<Rightarrow> Inl TypeError)
      else
        validate_loop tp
          (case value of Patterns pl \<Rightarrow> pl_subarray pl | Py v \<Rightarrow> None)
          (items value) empty_pattern_list)"

text \<open>
  \<^verbatim>\<open>set\<close>. The object's slot \<^verbatim>\<open>obj._trait_values[self.name]\<close> is \<open>current\<close> (\<open>None\<close> when
  the key is missing, then \<^verbatim>\<open>self.default_value\<close> is the old value). \<^verbatim>\<open>super().set\<close> is
  \<^verbatim>\<open>traitlets\<close>' own: it validates the value and stores the result. The result is the
  exception, if any, and the slot afterwards.
\<close>

definition set_trait ::
  "telescope_parameter \<Rightarrow> pattern_list option \<Rightarrow> pattern_list option \<Rightarrow> raw
     \<Rightarrow> error option \<times> pattern_list option"
where
  "set_trait tp default_value current value =
     (case (if \<not> is_list value then
              (case value of
                 Py v \<Rightarrow>
                   (case validate_entry tp v of
                      Inl e \<Rightarrow> Inl e
                    | Inr v' \<Rightarrow> Inr (Py (PList [PTuple [PStr ''type'', PStr ''*'', v']])))
               | Patterns pl \<Rightarrow> Inr value)
            else Inr value) of
        Inl e \<Rightarrow> (Some e, current)
      | Inr value1 \<Rightarrow>
          (let old_value = (case current of Some pl \<Rightarrow> Some pl | None \<Rightarrow> default_value)
           in case validate tp value1 of
                Inl e \<Rightarrow> (Some e, current)
              | Inr new_value \<Rightarrow>
                  (case (case old_value of None \<Rightarrow> None | Some old \<Rightarrow> pl_subarray old) of
                     None \<Rightarrow> (None, Some new_value)
                   | Some sub \<Rightarrow>
                       (case pl_attach_subarray new_value sub of
                          (err, attached) \<Rightarrow> (err, Some attached)))))"

text \<open>
  \<^verbatim>\<open>float(n)\<close> of an \<^verbatim>\<open>int\<close>: the nearest double, ties to the even mantissa. An \<^verbatim>\<open>int\<close> of
  at most 53 bits is exact; a longer one keeps its 53 leading bits, rounded; a result of
  \<open>2 ^ 1024\<close> or more raises \<^verbatim>\<open>OverflowError\<close>.
\<close>

fun bit_length :: "nat \<Rightarrow> nat" where
  "bit_length n = (if n = 0 then 0 else Suc (bit_length (n div 2)))"

declare bit_length.simps [simp del]

definition float_of_int :: "int \<Rightarrow> error + rat" where
  "float_of_int n =
     (let m = nat \<bar>n\<bar>;
          e = bit_length m - 53;
          q = m div 2 ^ e;
          r = m mod 2 ^ e;
          q' = (if 2 ^ e < 2 * r \<or> (2 * r = 2 ^ e \<and> odd q) then q + 1 else q);
          v = q' * 2 ^ e
      in if 2 ^ 1024 \<le> v then Inl OverflowError
         else Inr (of_int (sgn n * int v)))"

text \<open>
  The inner traits of \<^verbatim>\<open>FloatTelescopeParameter\<close> and \<^verbatim>\<open>IntTelescopeParameter\<close> are
  \<^verbatim>\<open>traitlets.Float()\<close> and \<^verbatim>\<open>traitlets.Integer()\<close> without bounds. The first turns an
  \<^verbatim>\<open>int\<close> (and a \<^verbatim>\<open>bool\<close>) into a float with \<^verbatim>\<open>float\<close> and accepts floats. The second
  accepts \<^verbatim>\<open>int\<close>s (and \<^verbatim>\<open>bool\<close>s) and casts a float whose value is an integer to that
  \<^verbatim>\<open>int\<close>. Both reject everything else with \<^verbatim>\<open>TraitError\<close>.
\<close>

fun Float_validate :: "pyval \<Rightarrow> error + pyval" where
  "Float_validate (PInt n) = map_sum id PFloat (float_of_int n)"
| "Float_validate (PBool b) = Inr (PFloat (if b then 1 else 0))"
| "Float_validate (PFloat q) = Inr (PFloat q)"
| "Float_validate v = Inl (TraitError InvalidValue)"

fun Integer_validate :: "pyval \<Rightarrow> error + pyval" where
  "Integer_validate (PInt n) = Inr (PInt n)"
| "Integer_validate (PBool b) = Inr (PBool b)"
| "Integer_validate (PFloat q) =
     (if of_int \<lfloor>q\<rfloor> = q then Inr (PInt \<lfloor>q\<rfloor>) else Inl (TraitError InvalidValue))"
| "Integer_validate v = Inl (TraitError InvalidValue)"

definition FloatTelescopeParameter :: telescope_parameter where
  "FloatTelescopeParameter = \<lparr> trait_validate = Float_validate, tp_allow_none = False \<rparr>"

definition IntTelescopeParameter :: telescope_parameter where
  "IntTelescopeParameter = \<lparr> trait_validate = Integer_validate, tp_allow_none = False \<rparr>"

section \<open>\<^verbatim>\<open>Path\<close>\<close>

text \<open>
  The attributes of the trait: \<open>exists\<close> is \<^verbatim>\<open>None\<close>, \<^verbatim>\<open>True\<close> or \<^verbatim>\<open>False\<close>.
\<close>

record path_trait =
  exists :: "bool option"
  directory_ok :: bool
  file_ok :: bool
  allow_none :: bool

text \<open>
  What \<^verbatim>\<open>Path.validate\<close> calls outside this repository's file: the operating system
  (\<^verbatim>\<open>os.fsdecode\<close>, \<^verbatim>\<open>os.path.expandvars\<close>, \<^verbatim>\<open>pathlib\<close> and the file system behind it),
  \<^verbatim>\<open>urllib.parse.urlparse\<close>, of which scheme, netloc and path are read (\<open>None\<close> is its
  \<^verbatim>\<open>ValueError\<close>), and the two collaborators \<^verbatim>\<open>download_cached\<close> and
  \<^verbatim>\<open>get_dataset_path\<close>. A path is the string it prints as. The file system is the one
  that \<^verbatim>\<open>exists()\<close>, \<^verbatim>\<open>is_dir()\<close> and \<^verbatim>\<open>is_file()\<close> see when they are called.
\<close>

record os_env =
  fsdecode :: "string \<Rightarrow> string"
  expandvars :: "string \<Rightarrow> string"
  urlparse :: "string \<Rightarrow> (string \<times> string \<times> string) option"
  download_cached :: "string \<Rightarrow> error + string"
  get_dataset_path :: "string \<Rightarrow> error + string"
  join_path :: "string \<Rightarrow> string \<Rightarrow> string"
  absolute :: "string \<Rightarrow> string"
  path_exists :: "string \<Rightarrow> bool"
  is_dir :: "string \<Rightarrow> bool"
  is_file :: "string \<Rightarrow> bool"

text \<open>The value handed to \<^verbatim>\<open>Path.validate\<close>, and what it returns.\<close>

datatype path_value =
    VNone
  | VUndefined
  | VBytes string
  | VStr string
  | VPath string
  | VOther pyval

text \<open>\<^verbatim>\<open>value.partition(sep)[2]\<close>: what follows the first occurrence of \<open>sep\<close>, or nothing.\<close>

fun partition_tail :: "string \<Rightarrow> string \<Rightarrow> string" where
  "partition_tail sep [] = []"
| "partition_tail sep (c # s) =
     (if take (length sep) (c # s) = sep then drop (length sep) (c # s)
      else partition_tail sep s)"

text \<open>Lines 187 to 202: the constraints on the resolved path.\<close>

definition check_constraints :: "path_trait \<Rightarrow> os_env \<Rightarrow> string \<Rightarrow> error + path_value" where
  "check_constraints tr env p =
     (let value = absolute env p;
          ex = path_exists env value
      in if (case exists tr of None \<Rightarrow> False | Some required \<Rightarrow> ex \<noteq> required)
         then Inl (TraitError (if exists tr = Some True then DoesNotExist value
                               else MustNotExist value))
         else if ex \<and> \<not> directory_ok tr \<and> is_dir env value
         then Inl (TraitError (MustNotBeDirectory value))
         else if ex \<and> \<not> file_ok tr \<and> is_file env value
         then Inl (TraitError (MustNotBeFile value))
         else Inr (VPath value))"

text \<open>Lines 161 to 185: the dispatch on the scheme of the expanded string.\<close>

definition resolve :: "os_env \<Rightarrow> string \<Rightarrow> error + string" where
  "resolve env value =
     (if value = [] then Inl (TraitError InvalidValue)
      else
        (case urlparse env value of
           None \<Rightarrow> Inl (TraitError InvalidValue)
         | Some (scheme, netloc, path) \<Rightarrow>
             if scheme \<in> {''http'', ''https''} then download_cached env value
             else if scheme = ''dataset''
               then get_dataset_path env (partition_tail ''dataset://'' value)
             else if scheme \<in> {[], ''file''} then Inr (join_path env netloc path)
             else Inl (TraitError InvalidValue)))"

definition path_validate :: "path_trait \<Rightarrow> os_env \<Rightarrow> path_value \<Rightarrow> error + path_value" where
  "path_validate tr env value0 =
     (let value = (case value0 of VBytes b \<Rightarrow> VStr (fsdecode env b) | v \<Rightarrow> v)
      in if (value = VNone \<or> value = VUndefined) \<and> allow_none tr then Inr value
         else
           (case value of
              VStr s \<Rightarrow>
                (case resolve env (expandvars env s) of
                   Inl e \<Rightarrow> Inl e
                 | Inr p \<Rightarrow> check_constraints tr env p)
            | VPath s \<Rightarrow>
                (case resolve env (expandvars env s) of
                   Inl e \<Rightarrow> Inl e
                 | Inr p \<Rightarrow> check_constraints tr env p)
            | _ \<Rightarrow> Inl (TraitError InvalidValue)))"

section \<open>Notions used to state the properties\<close>

text \<open>Any number of \<^verbatim>\<open>attach_subarray\<close> calls in a row, whether or not one of them raises.\<close>

fun attach_all :: "tel_lookup \<Rightarrow> subarray list \<Rightarrow> tel_lookup" where
  "attach_all lk [] = lk"
| "attach_all lk (sub # subs) = attach_all (snd (attach_subarray lk sub)) subs"

text \<open>
  The patterns that \<^verbatim>\<open>validate\<close> produces: a \<^verbatim>\<open>"type"\<close> pattern carries a string, an
  \<^verbatim>\<open>"id"\<close> pattern an \<^verbatim>\<open>int\<close> (see \<open>validate_valid\<close> below).
\<close>

fun valid_pattern :: "pattern \<Rightarrow> bool" where
  "valid_pattern (PStr c, PStr pat, v) = (c = ''type'')"
| "valid_pattern (PStr c, PInt n, v) = (c = ''id'')"
| "valid_pattern p = False"

text \<open>The patterns whose argument is \<^verbatim>\<open>"*"\<close>, and those among them whose command is \<^verbatim>\<open>"type"\<close>.\<close>

definition star_patterns :: "pattern list \<Rightarrow> pattern list" where
  "star_patterns params = filter (\<lambda>(command, arg, val). arg = PStr ''*'') params"

definition type_star_patterns :: "pattern list \<Rightarrow> pattern list" where
  "type_star_patterns params =
     filter (\<lambda>(command, arg, val). command = PStr ''type'' \<and> arg = PStr ''*'') params"

text \<open>
  A pattern touches a type when it is a \<^verbatim>\<open>"type"\<close> pattern that matches it, and a telescope
  id when it is a \<^verbatim>\<open>"type"\<close> pattern that matches a type of that telescope or an \<^verbatim>\<open>"id"\<close>
  pattern of that id. \<open>last_value\<close> is the value of the last pattern of a list.
\<close>

fun touches_type :: "subarray \<Rightarrow> string \<Rightarrow> pattern \<Rightarrow> bool" where
  "touches_type sub t (command, arg, val) =
     (command = PStr ''type'' \<and>
      (case arg of PStr pat \<Rightarrow> t \<in> set (matched_tel_types sub pat) | _ \<Rightarrow> False))"

fun touches_id :: "subarray \<Rightarrow> int \<Rightarrow> pattern \<Rightarrow> bool" where
  "touches_id sub n (command, arg, val) =
     (if command = PStr ''type'' then
        (case arg of
           PStr pat \<Rightarrow> n \<in> set (concat (map (get_tel_ids_for_type sub) (matched_tel_types sub pat)))
         | _ \<Rightarrow> False)
      else command = PStr ''id'' \<and> py_int arg = Inr n)"

definition last_value :: "pattern list \<Rightarrow> pyval option" where
  "last_value params = (case params of [] \<Rightarrow> None | p # ps \<Rightarrow> Some (snd (snd (last params))))"

text \<open>
  A small catalogue for the concrete instances: type \<^verbatim>\<open>LST_X\<close> with telescopes 5 and 7,
  type \<^verbatim>\<open>MST_Y\<close> with telescope 9.
\<close>

definition example_subarray :: subarray where
  "example_subarray =
     \<lparr> telescope_types = [''LST_X'', ''MST_Y''],
       get_tel_ids_for_type =
         (\<lambda>t. if t = ''LST_X'' then [5, 7] else if t = ''MST_Y'' then [9] else []) \<rparr>"

text \<open>A second catalogue, with none of the types and telescopes of the first.\<close>

definition other_subarray :: subarray where
  "other_subarray =
     \<lparr> telescope_types = [''SST_Z''],
       get_tel_ids_for_type = (\<lambda>t. if t = ''SST_Z'' then [3] else []) \<rparr>"

text \<open>
  A field already bound to the example catalogue: the scalar 1.0 validated by a
  \<^verbatim>\<open>FloatTelescopeParameter\<close>, then attached.
\<close>

definition bound_example :: pattern_list where
  "bound_example =
     (case validate FloatTelescopeParameter (Py (PFloat 1)) of
        Inr pl \<Rightarrow> snd (pl_attach_subarray pl example_subarray)
      | Inl e \<Rightarrow> empty_pattern_list)"

text \<open>
  An environment for the concrete instances of \<^verbatim>\<open>Path.validate\<close>: no variables to expand,
  three URLs that parse with a scheme and every other string parsed as a bare path, a
  dataset registry that knows one name, and a file system with the directory
  \<^verbatim>\<open>/data\<close> and two files in it, one of them also reached through \<^verbatim>\<open>/data/../data\<close>;
  \<open>absolute\<close> puts the working directory \<^verbatim>\<open>/cwd\<close> before a relative path and changes
  nothing else, as \<^verbatim>\<open>pathlib.Path.absolute\<close> does. \<open>default_path_trait\<close> is \<^verbatim>\<open>Path()\<close>.
\<close>

definition example_env :: os_env where
  "example_env =
     \<lparr> fsdecode = (\<lambda>b. b),
       expandvars = (\<lambda>s. s),
       urlparse =
         (\<lambda>s. if s = ''dataset://gamma.simtel.gz'' then Some (''dataset'', ''gamma.simtel.gz'', [])
              else if s = ''ftp://host/run.h5'' then Some (''ftp'', ''host'', ''/run.h5'')
              else if s = ''file:///data/run.h5'' then Some (''file'', [], ''/data/run.h5'')
              else Some ([], [], s)),
       download_cached = (\<lambda>url. Inl CollaboratorError),
       get_dataset_path =
         (\<lambda>name. if name = ''gamma.simtel.gz'' then Inr ''/data/gamma.simtel.gz''
                 else Inl CollaboratorError),
       join_path = (\<lambda>netloc path. netloc @ path),
       absolute = (\<lambda>p. case p of [] \<Rightarrow> ''/cwd'' | c # cs \<Rightarrow> if c = CHR ''/'' then p else ''/cwd/'' @ p),
       path_exists =
         (\<lambda>p. p \<in> {''/data'', ''/data/gamma.simtel.gz'', ''/data/run.h5'', ''/data/../data/run.h5''}),
       is_dir = (\<lambda>p. p = ''/data''),
       is_file =
         (\<lambda>p. p \<in> {''/data/gamma.simtel.gz'', ''/data/run.h5'', ''/data/../data/run.h5''}) \<rparr>"

definition default_path_trait :: path_trait where
  "default_path_trait = \<lparr> exists = None, directory_ok = True, file_ok = True, allow_none = False \<rparr>"

text \<open>
  The constraints of a \<^verbatim>\<open>Path\<close> trait disagree with the file system at the absolute path
  \<open>a\<close>: existence is required or forbidden and differs, or the path exists and is a
  directory (a file) while \<open>directory_ok\<close> (\<open>file_ok\<close>) is false.
\<close>

definition constraints_violated :: "path_trait \<Rightarrow> os_env \<Rightarrow> string \<Rightarrow> bool" where
  "constraints_violated tr env a =
     ((exists tr = Some True \<and> \<not> path_exists env a)
      \<or> (exists tr = Some False \<and> path_exists env a)
      \<or> (path_exists env a \<and> is_dir env a \<and> \<not> directory_ok tr)
      \<or> (path_exists env a \<and> is_file env a \<and> \<not> file_ok tr))"

section \<open>The lookup: construction, attachment, access\<close>

subsection \<open>Auxiliary facts\<close>

lemma init_global_last:
  "init_global params g =
     (case star_patterns params of [] \<Rightarrow> g | p # ps \<Rightarrow> Some (snd (snd (last (p # ps)))))"
  by (induction params arbitrary: g) (auto simp: star_patterns_def split: list.splits)

lemma attach_subarray_global [simp]:
  "subarray_global_value (snd (attach_subarray lk sub)) = subarray_global_value lk"
  by (simp add: attach_subarray_def split: prod.splits)

lemma attach_subarray_params [simp]:
  "telescope_parameter_list (snd (attach_subarray lk sub)) = telescope_parameter_list lk"
  by (simp add: attach_subarray_def split: prod.splits)

lemma attach_all_global [simp]:
  "subarray_global_value (attach_all lk subs) = subarray_global_value lk"
  by (induction subs arbitrary: lk) simp_all

lemma glob_star [simp]: "glob ''*'' s"
  by (induction s) simp_all

lemma fnmatch_star [simp]: "fnmatch t ''*''"
  by (simp add: fnmatch_def)

lemma matched_star [simp]: "matched_tel_types sub ''*'' = telescope_types sub"
  by (simp add: matched_tel_types_def)

lemma set_ids_eq: "set_ids ids v im = (\<lambda>n. if n \<in> set ids then Some v else im n)"
  by (induction ids arbitrary: im) (auto simp: fun_eq_iff)

lemma set_types_eq:
  "set_types sub ts v (tm, im) =
     ((\<lambda>t. if t \<in> set ts then Some v else tm t),
      (\<lambda>n. if n \<in> set (concat (map (get_tel_ids_for_type sub) ts)) then Some v else im n))"
  by (induction ts arbitrary: tm im) (auto simp: fun_eq_iff set_ids_eq)

lemma last_value_Cons:
  "last_value (p # ps) = (case last_value ps of None \<Rightarrow> Some (snd (snd p)) | Some v \<Rightarrow> Some v)"
  by (cases ps) (simp_all add: last_value_def)

lemma last_value_Nil [simp]: "last_value [] = None"
  by (simp add: last_value_def)

lemma replay_last_wins:
  "fst (replay sub params (tm, im)) = None \<Longrightarrow>
   snd (replay sub params (tm, im)) =
     ((\<lambda>t. case last_value (filter (touches_type sub t) params) of None \<Rightarrow> tm t | Some v \<Rightarrow> Some v),
      (\<lambda>n. case last_value (filter (touches_id sub n) params) of None \<Rightarrow> im n | Some v \<Rightarrow> Some v))"
proof (induction params arbitrary: tm im)
  case Nil
  then show ?case by simp
next
  case (Cons p params)
  obtain command arg val where p: "p = (command, arg, val)" by (cases p)
  show ?case
  proof (cases "command = PStr ''type''")
    case True
    note ty = this
    show ?thesis
    proof (cases arg)
      case (PStr pat)
      with Cons.prems p ty
      have ok: "fst (replay sub params (set_types sub (matched_tel_types sub pat) val (tm, im))) = None"
        by simp
      let ?tm = "\<lambda>t. if t \<in> set (matched_tel_types sub pat) then Some val else tm t"
      let ?im = "\<lambda>n. if n \<in> set (concat (map (get_tel_ids_for_type sub) (matched_tel_types sub pat)))
                      then Some val else im n"
      have ok': "fst (replay sub params (?tm, ?im)) = None"
        using ok by (simp add: set_types_eq)
      have "snd (replay sub (p # params) (tm, im)) = snd (replay sub params (?tm, ?im))"
        using p ty PStr by (simp add: set_types_eq)
      also note Cons.IH [OF ok']
      also have "((\<lambda>t. case last_value (filter (touches_type sub t) params) of
                        None \<Rightarrow> ?tm t | Some v \<Rightarrow> Some v),
                  (\<lambda>na. case last_value (filter (touches_id sub na) params) of
                        None \<Rightarrow> ?im na | Some v \<Rightarrow> Some v))
               = ((\<lambda>t. case last_value (filter (touches_type sub t) (p # params)) of
                        None \<Rightarrow> tm t | Some v \<Rightarrow> Some v),
                  (\<lambda>na. case last_value (filter (touches_id sub na) (p # params)) of
                        None \<Rightarrow> im na | Some v \<Rightarrow> Some v))"
        using p ty PStr
        by (auto simp: fun_eq_iff last_value_Cons split: option.splits)
      finally show ?thesis .
    qed (use Cons p ty in \<open>auto simp: fun_eq_iff last_value_Cons split: if_splits option.splits\<close>)
  next
    case False
    note nty = this
    show ?thesis
    proof (cases "command = PStr ''id''")
      case True
      with Cons.prems p nty obtain n where n: "py_int arg = Inr n"
        by (auto split: sum.splits)
      with Cons.prems p nty True have ok: "fst (replay sub params (tm, im(n \<mapsto> val))) = None"
        by simp
      have "snd (replay sub (p # params) (tm, im)) = snd (replay sub params (tm, im(n \<mapsto> val)))"
        using p nty True n by simp
      also note Cons.IH [OF ok]
      also have "((\<lambda>t. case last_value (filter (touches_type sub t) params) of
                        None \<Rightarrow> tm t | Some v \<Rightarrow> Some v),
                  (\<lambda>na. case last_value (filter (touches_id sub na) params) of
                        None \<Rightarrow> (im(n \<mapsto> val)) na | Some v \<Rightarrow> Some v))
               = ((\<lambda>t. case last_value (filter (touches_type sub t) (p # params)) of
                        None \<Rightarrow> tm t | Some v \<Rightarrow> Some v),
                  (\<lambda>na. case last_value (filter (touches_id sub na) (p # params)) of
                        None \<Rightarrow> im na | Some v \<Rightarrow> Some v))"
        using p nty True n
        by (auto simp: fun_eq_iff last_value_Cons split: option.splits)
      finally show ?thesis .
    next
      case False
      with Cons.prems p nty show ?thesis by simp
    qed
  qed
qed

lemma replay_valid: "list_all valid_pattern params \<Longrightarrow> fst (replay sub params tabs) = None"
proof (induction params arbitrary: tabs)
  case Nil
  then show ?case by simp
next
  case (Cons p params)
  obtain command arg val where p: "p = (command, arg, val)" by (cases p)
  obtain tm im where t: "tabs = (tm, im)" by (cases tabs)
  from Cons.prems p have "valid_pattern (command, arg, val)" by simp
  then show ?case
    using Cons p t
    by (cases "(command, arg, val)" rule: valid_pattern.cases) auto
qed

lemma valid_star_patterns:
  "list_all valid_pattern params \<Longrightarrow> star_patterns params = type_star_patterns params"
proof (induction params)
  case Nil
  then show ?case by (simp add: star_patterns_def type_star_patterns_def)
next
  case (Cons p params)
  obtain command arg val where p: "p = (command, arg, val)" by (cases p)
  from Cons.prems p have "valid_pattern (command, arg, val)" by simp
  then have "arg = PStr ''*'' \<longrightarrow> command = PStr ''type''"
    by (cases "(command, arg, val)" rule: valid_pattern.cases) auto
  with Cons p show ?case
    by (auto simp: star_patterns_def type_star_patterns_def)
qed

lemma attach_new_lookup:
  "fst (replay sub params (Map.empty, Map.empty)) = None \<Longrightarrow>
   attach_subarray (new_lookup params) sub =
     (None, (new_lookup params)
        \<lparr> lookup_subarray := Some sub,
          value_for_tel_id := Some (\<lambda>n. last_value (filter (touches_id sub n) params)),
          value_for_type := Some (\<lambda>t. last_value (filter (touches_type sub t) params)),
          type_strs := Some (set (telescope_types sub)) \<rparr>)"
proof -
  assume ok: "fst (replay sub params (Map.empty, Map.empty)) = None"
  obtain err tm im where r: "replay sub params (Map.empty, Map.empty) = (err, (tm, im))"
    by (metis prod.exhaust)
  from replay_last_wins [OF ok] r ok
  have "err = None"
    and "tm = (\<lambda>t. last_value (filter (touches_type sub t) params))"
    and "im = (\<lambda>n. last_value (filter (touches_id sub n) params))"
    by (auto simp: fun_eq_iff split: option.splits)
  with r show ?thesis
    by (simp add: attach_subarray_def new_lookup_def)
qed

lemma spec_example:
  "getitem (snd (attach_subarray
      (new_lookup [(PStr ''type'', PStr ''*'', PFloat 1), (PStr ''type'', PStr ''LST*'', PFloat 2)])
      example_subarray)) (PInt 7) = Inr (PFloat 2)"
  by (simp add: attach_subarray_def new_lookup_def example_subarray_def getitem_def get_tel_id_def
        matched_tel_types_def fnmatch_def)

subsection \<open>List order decides\<close>

text \<open>
  Claim C1. Attaching replays the patterns in list order and a later pattern overwrites
  the entries of every telescope id and type it touches: after attaching, the entry of an
  id (of a type) is the value of the last pattern of the list that touches it, whatever
  the kind of that pattern. In particular, for the patterns
  \<^verbatim>\<open>[("id", 5, 9.0), ("type", "*", 1.0)]\<close> and any subarray in which telescope 5 belongs to a
  known type, looking up 5 gives 1.0.
\<close>

theorem list_order_precedence:
  "(list_all valid_pattern params \<longrightarrow>
      fst (attach_subarray (new_lookup params) sub) = None
      \<and> value_for_tel_id (snd (attach_subarray (new_lookup params) sub))
          = Some (\<lambda>n. last_value (filter (touches_id sub n) params))
      \<and> value_for_type (snd (attach_subarray (new_lookup params) sub))
          = Some (\<lambda>t. last_value (filter (touches_type sub t) params)))
   \<and> (list_ex (\<lambda>t. 5 \<in> set (get_tel_ids_for_type sub t)) (telescope_types sub) \<longrightarrow>
        getitem (snd (attach_subarray
                   (new_lookup [(PStr ''id'', PInt 5, PFloat 9), (PStr ''type'', PStr ''*'', PFloat 1)]) sub))
          (PInt 5) = Inr (PFloat 1))"
proof (intro conjI impI)
  assume v: "list_all valid_pattern params"
  note a = attach_new_lookup [OF replay_valid [OF v], of sub]
  show "fst (attach_subarray (new_lookup params) sub) = None"
    by (simp add: a)
  show "value_for_tel_id (snd (attach_subarray (new_lookup params) sub))
          = Some (\<lambda>n. last_value (filter (touches_id sub n) params))"
    by (simp add: a)
  show "value_for_type (snd (attach_subarray (new_lookup params) sub))
          = Some (\<lambda>t. last_value (filter (touches_type sub t) params))"
    by (simp add: a)
next
  let ?ps = "[(PStr ''id'', PInt 5, PFloat 9), (PStr ''type'', PStr ''*'', PFloat 1)]"
  assume m: "list_ex (\<lambda>t. 5 \<in> set (get_tel_ids_for_type sub t)) (telescope_types sub)"
  have v: "list_all valid_pattern ?ps" by simp
  note a = attach_new_lookup [OF replay_valid [OF v], of sub]
  from m show "getitem (snd (attach_subarray (new_lookup ?ps) sub)) (PInt 5) = Inr (PFloat 1)"
    by (auto simp: a getitem_def get_tel_id_def last_value_def list_ex_iff)
qed

theorem list_order_precedence_witness:
  "list_all valid_pattern [(PStr ''type'', PStr ''*'', PFloat 1), (PStr ''type'', PStr ''LST*'', PFloat 2)]
   \<and> fst (attach_subarray
        (new_lookup [(PStr ''type'', PStr ''*'', PFloat 1), (PStr ''type'', PStr ''LST*'', PFloat 2)])
        example_subarray) = None
   \<and> list_ex (\<lambda>t. 5 \<in> set (get_tel_ids_for_type example_subarray t)) (telescope_types example_subarray)
   \<and> getitem (snd (attach_subarray
                   (new_lookup [(PStr ''id'', PInt 5, PFloat 9), (PStr ''type'', PStr ''*'', PFloat 1)])
                   example_subarray))
          (PInt 5) = Inr (PFloat 1)"
proof -
  have a: "list_all valid_pattern [(PStr ''type'', PStr ''*'', PFloat 1), (PStr ''type'', PStr ''LST*'', PFloat 2)]"
    by simp
  have b: "list_ex (\<lambda>t. 5 \<in> set (get_tel_ids_for_type example_subarray t)) (telescope_types example_subarray)"
    by (simp add: example_subarray_def)
  show ?thesis
    using a b list_order_precedence
      [of "[(PStr ''type'', PStr ''*'', PFloat 1), (PStr ''type'', PStr ''LST*'', PFloat 2)]" example_subarray]
    by blast
qed

subsection \<open>Access before attachment\<close>

text \<open>
  Claim C3, amended. On a lookup that was never attached, every key other than \<^verbatim>\<open>None\<close>
  (an integer id, a type name) fails with the \<^verbatim>\<open>ValueError\<close> "No subarray attached"
  (NotBound); the key \<^verbatim>\<open>None\<close> never does: it is answered before that check.
\<close>

theorem lookup_before_attach:
  "(tel_key \<noteq> PNone \<longrightarrow> getitem (new_lookup params) tel_key = Inl (ValueError NoSubarrayAttached))
   \<and> getitem (new_lookup params) PNone \<noteq> Inl (ValueError NoSubarrayAttached)"
  by (simp add: getitem_def new_lookup_def split: option.splits)

theorem lookup_before_attach_witness:
  "PInt 7 \<noteq> PNone
   \<and> getitem (new_lookup [(PStr ''type'', PStr ''*'', PFloat 1)]) (PInt 7)
       = Inl (ValueError NoSubarrayAttached)
   \<and> PStr ''LST_X'' \<noteq> PNone
   \<and> getitem (new_lookup [(PStr ''type'', PStr ''*'', PFloat 1)]) (PStr ''LST_X'')
       = Inl (ValueError NoSubarrayAttached)
   \<and> getitem (new_lookup [(PStr ''type'', PStr ''*'', PFloat 1)]) PNone
       \<noteq> Inl (ValueError NoSubarrayAttached)"
  using lookup_before_attach [of "PInt 7" "[(PStr ''type'', PStr ''*'', PFloat 1)]"]
    lookup_before_attach [of "PStr ''LST_X''" "[(PStr ''type'', PStr ''*'', PFloat 1)]"]
  by simp

text \<open>
  The claim as stated fails for the key \<^verbatim>\<open>None\<close>: with the single pattern
  \<^verbatim>\<open>("type", "*", 1.0)\<close> the lookup, never attached, returns 1.0.
\<close>

theorem lookup_none_before_attach_counterexample:
  "getitem (new_lookup [(PStr ''type'', PStr ''*'', PFloat 1)]) PNone = Inr (PFloat 1)"
  by (simp add: getitem_def new_lookup_def)

subsection \<open>The global default\<close>

text \<open>
  Claim C4. For patterns as \<^verbatim>\<open>validate\<close> leaves them, after any number of attachments:
  when no pattern is \<^verbatim>\<open>("type", "*", _)\<close>, looking up \<^verbatim>\<open>None\<close> fails with the \<^verbatim>\<open>KeyError\<close>
  "No subarray global value set" (NoDefault); otherwise it returns the value of the last
  such pattern.
\<close>

theorem lookup_none_default:
  "list_all valid_pattern params \<Longrightarrow>
     getitem (attach_all (new_lookup params) subs) PNone =
       (case last_value (type_star_patterns params) of
          None \<Rightarrow> Inl (KeyError NoGlobalValue)
        | Some v \<Rightarrow> Inr v)"
  by (simp add: getitem_def new_lookup_def init_global_last valid_star_patterns last_value_def
           split: list.splits)

theorem lookup_none_default_witness:
  "list_all valid_pattern [(PStr ''type'', PStr ''LST*'', PFloat 2), (PStr ''id'', PInt 9, PFloat 4)]
   \<and> getitem (attach_all (new_lookup [(PStr ''type'', PStr ''LST*'', PFloat 2), (PStr ''id'', PInt 9, PFloat 4)])
        [example_subarray]) PNone = Inl (KeyError NoGlobalValue)
   \<and> list_all valid_pattern [(PStr ''type'', PStr ''*'', PFloat 1), (PStr ''type'', PStr ''*'', PFloat 3)]
   \<and> getitem (attach_all (new_lookup [(PStr ''type'', PStr ''*'', PFloat 1), (PStr ''type'', PStr ''*'', PFloat 3)])
        [example_subarray, example_subarray]) PNone = Inr (PFloat 3)"
proof -
  have a: "list_all valid_pattern [(PStr ''type'', PStr ''LST*'', PFloat 2), (PStr ''id'', PInt 9, PFloat 4)]"
    by simp
  have b: "list_all valid_pattern [(PStr ''type'', PStr ''*'', PFloat 1), (PStr ''type'', PStr ''*'', PFloat 3)]"
    by simp
  show ?thesis
    using a b lookup_none_default [OF a, of "[example_subarray]"]
      lookup_none_default [OF b, of "[example_subarray, example_subarray]"]
    by (simp add: type_star_patterns_def last_value_def)
qed

text \<open>
  Claim C10. The global value is fixed by \<^verbatim>\<open>__init__\<close> from the patterns alone: when some
  pattern has the argument \<^verbatim>\<open>"*"\<close>, whatever its command, looking up \<^verbatim>\<open>None\<close> returns the
  value of the last such pattern, before any attachment (the empty list of subarrays)
  and after every sequence of attachments.
\<close>

theorem global_default_fixed_at_construction:
  "star_patterns params \<noteq> [] \<Longrightarrow>
     getitem (attach_all (new_lookup params) subs) PNone
       = Inr (snd (snd (last (star_patterns params))))"
  by (simp add: getitem_def new_lookup_def init_global_last split: list.splits)

theorem global_default_fixed_at_construction_witness:
  "star_patterns [(PStr ''id'', PStr ''*'', PFloat 3), (PStr ''type'', PStr ''LST*'', PFloat 2)] \<noteq> []
   \<and> getitem (attach_all (new_lookup [(PStr ''id'', PStr ''*'', PFloat 3), (PStr ''type'', PStr ''LST*'', PFloat 2)])
        [example_subarray, example_subarray]) PNone = Inr (PFloat 3)"
  using global_default_fixed_at_construction
    [of "[(PStr ''id'', PStr ''*'', PFloat 3), (PStr ''type'', PStr ''LST*'', PFloat 2)]"
        "[example_subarray, example_subarray]"]
  by (simp add: star_patterns_def)

subsection \<open>Attaching again\<close>

text \<open>
  Claim C5. Attaching recomputes both dictionaries from the patterns alone: attaching to
  \<open>c\<close> and then to \<open>c'\<close> leaves the lookup exactly as attaching a new lookup of the same
  patterns to \<open>c'\<close> does, and raises what that raises; the two dictionaries are the replay
  of the patterns on \<open>c'\<close> from empty dictionaries; and for patterns as \<^verbatim>\<open>validate\<close> leaves
  them the entry of an id (of a type) is the value of the last pattern that touches it in
  \<open>c'\<close>, so an id or type that only \<open>c\<close> gave an entry has none.
\<close>

theorem attach_recomputes_from_rules:
  "attach_subarray (snd (attach_subarray (new_lookup params) c)) c'
     = attach_subarray (new_lookup params) c'
   \<and> value_for_tel_id (snd (attach_subarray (snd (attach_subarray (new_lookup params) c)) c'))
       = Some (snd (snd (replay c' params (Map.empty, Map.empty))))
   \<and> value_for_type (snd (attach_subarray (snd (attach_subarray (new_lookup params) c)) c'))
       = Some (fst (snd (replay c' params (Map.empty, Map.empty))))
   \<and> (list_all valid_pattern params \<longrightarrow>
        fst (attach_subarray (snd (attach_subarray (new_lookup params) c)) c') = None
        \<and> value_for_tel_id (snd (attach_subarray (snd (attach_subarray (new_lookup params) c)) c'))
            = Some (\<lambda>n. last_value (filter (touches_id c' n) params))
        \<and> value_for_type (snd (attach_subarray (snd (attach_subarray (new_lookup params) c)) c'))
            = Some (\<lambda>t. last_value (filter (touches_type c' t) params))
        \<and> type_strs (snd (attach_subarray (snd (attach_subarray (new_lookup params) c)) c'))
            = Some (set (telescope_types c')))"
proof -
  have e: "attach_subarray (snd (attach_subarray (new_lookup params) c)) c'
             = attach_subarray (new_lookup params) c'"
    by (simp add: attach_subarray_def new_lookup_def split: prod.splits)
  have r: "value_for_tel_id (snd (attach_subarray (new_lookup params) c'))
             = Some (snd (snd (replay c' params (Map.empty, Map.empty))))"
    "value_for_type (snd (attach_subarray (new_lookup params) c'))
             = Some (fst (snd (replay c' params (Map.empty, Map.empty))))"
    by (simp_all add: attach_subarray_def new_lookup_def split: prod.splits)
  have v: "fst (attach_subarray (new_lookup params) c') = None
        \<and> value_for_tel_id (snd (attach_subarray (new_lookup params) c'))
            = Some (\<lambda>n. last_value (filter (touches_id c' n) params))
        \<and> value_for_type (snd (attach_subarray (new_lookup params) c'))
            = Some (\<lambda>t. last_value (filter (touches_type c' t) params))
        \<and> type_strs (snd (attach_subarray (new_lookup params) c'))
            = Some (set (telescope_types c'))"
    if "list_all valid_pattern params"
    by (simp add: attach_new_lookup [OF replay_valid [OF that]])
  show ?thesis
    unfolding e using r v by simp
qed

theorem attach_recomputes_from_rules_witness:
  "list_all valid_pattern [(PStr ''type'', PStr ''*'', PFloat 1), (PStr ''id'', PInt 5, PFloat 9)]
   \<and> getitem (snd (attach_subarray
         (new_lookup [(PStr ''type'', PStr ''*'', PFloat 1), (PStr ''id'', PInt 5, PFloat 9)])
         example_subarray)) (PInt 7) = Inr (PFloat 1)
   \<and> getitem (snd (attach_subarray (snd (attach_subarray
         (new_lookup [(PStr ''type'', PStr ''*'', PFloat 1), (PStr ''id'', PInt 5, PFloat 9)])
         example_subarray)) other_subarray)) (PInt 7) = Inl (KeyError NoValueForTelId)
   \<and> getitem (snd (attach_subarray (snd (attach_subarray
         (new_lookup [(PStr ''type'', PStr ''*'', PFloat 1), (PStr ''id'', PInt 5, PFloat 9)])
         example_subarray)) other_subarray)) (PInt 3) = Inr (PFloat 1)
   \<and> getitem (snd (attach_subarray (snd (attach_subarray
         (new_lookup [(PStr ''type'', PStr ''*'', PFloat 1), (PStr ''id'', PInt 5, PFloat 9)])
         example_subarray)) other_subarray)) (PStr ''LST_X'') = Inl (ValueError UnknownTelescopeType)
   \<and> getitem (snd (attach_subarray (snd (attach_subarray
         (new_lookup [(PStr ''type'', PStr ''*'', PFloat 1), (PStr ''id'', PInt 5, PFloat 9)])
         example_subarray)) other_subarray)) (PStr ''SST_Z'') = Inr (PFloat 1)"
proof -
  let ?ps = "[(PStr ''type'', PStr ''*'', PFloat 1), (PStr ''id'', PInt 5, PFloat 9)]"
  have a: "list_all valid_pattern ?ps" by simp
  have b: "getitem (snd (attach_subarray (new_lookup ?ps) example_subarray)) (PInt 7) = Inr (PFloat 1)"
    by (simp add: attach_new_lookup [OF replay_valid [OF a]] getitem_def get_tel_id_def
          last_value_def example_subarray_def)
  note t = attach_recomputes_from_rules [of ?ps example_subarray other_subarray,
      THEN conjunct2, THEN conjunct2, THEN conjunct2, THEN mp, OF a]
  show ?thesis
    using a b t
    by (simp add: getitem_def get_tel_id_def last_value_def other_subarray_def)
qed

section \<open>Validation and assignment of a \<^verbatim>\<open>TelescopeParameter\<close>\<close>

subsection \<open>What validation leaves behind\<close>

lemma validate_pattern_valid: "validate_pattern tp x = Inr p \<Longrightarrow> valid_pattern p"
  by (auto simp: validate_pattern_def split: sum.splits prod.splits pyval.splits if_splits error.splits)

lemma validate_pattern_kept:
  "validate_pattern tp x = Inr p \<Longrightarrow> single_to_pattern p = Inr p"
  by (auto simp: validate_pattern_def single_to_pattern_def
           split: sum.splits prod.splits pyval.splits if_splits error.splits)

lemma append_validated:
  "validate_pattern tp x = Inr p \<Longrightarrow> append acc p = Inr (acc\<lparr> data := data acc @ [p] \<rparr>)"
  by (simp add: append_def validate_pattern_kept)

lemma pl_attach_subarray_data [simp]: "data (snd (pl_attach_subarray pl sub)) = data pl"
  by (simp add: pl_attach_subarray_def split: option.splits prod.splits)

lemma validate_loop_valid:
  "validate_loop tp sub xs acc = Inr pl \<Longrightarrow> list_all valid_pattern (data acc) \<Longrightarrow>
   list_all valid_pattern (data pl)"
proof (induction xs arbitrary: acc)
  case Nil
  then show ?case by simp
next
  case (Cons x xs)
  from Cons.prems obtain p where p: "validate_pattern tp x = Inr p"
    by (auto split: sum.splits)
  let ?nv = "acc\<lparr> data := data acc @ [p], lookup := Some (new_lookup (data acc @ [p])) \<rparr>"
  note ap = append_validated [OF p, of acc]
  have v: "list_all valid_pattern (data ?nv)"
    using Cons.prems(2) validate_pattern_valid [OF p]
    by simp
  show ?case
  proof (cases sub)
    case None
    with Cons.prems p ap have "validate_loop tp sub xs ?nv = Inr pl"
      by (simp add: Let_def)
    from Cons.IH [OF this v] show ?thesis .
  next
    case (Some s)
    with Cons.prems p ap obtain nv3 where a: "pl_attach_subarray ?nv s = (None, nv3)"
      and l: "validate_loop tp sub xs nv3 = Inr pl"
      by (auto simp: Let_def split: prod.splits option.splits)
    from a have "data nv3 = data ?nv"
      by (metis pl_attach_subarray_data snd_conv)
    with v have "list_all valid_pattern (data nv3)" by simp
    from Cons.IH [OF l this] show ?thesis .
  qed
qed

lemma validate_valid:
  assumes "validate tp value = Inr pl"
  shows "list_all valid_pattern (data pl)"
proof -
  from assms obtain sub xs where "validate_loop tp sub xs empty_pattern_list = Inr pl"
    by (auto simp: validate_def simp del: validate_loop.simps
             split: if_splits raw.splits sum.splits)
  from validate_loop_valid [OF this] show ?thesis
    by (simp add: empty_pattern_list_def)
qed

lemma validate_loop_lookup:
  "validate_loop tp sub xs acc = Inr pl \<Longrightarrow> xs \<noteq> [] \<or> lookup acc \<noteq> None \<Longrightarrow> lookup pl \<noteq> None"
proof (induction xs arbitrary: acc)
  case Nil
  then show ?case by simp
next
  case (Cons x xs)
  from Cons.prems obtain p where p: "validate_pattern tp x = Inr p"
    by (auto split: sum.splits)
  let ?nv = "acc\<lparr> data := data acc @ [p], lookup := Some (new_lookup (data acc @ [p])) \<rparr>"
  note ap = append_validated [OF p, of acc]
  show ?case
  proof (cases sub)
    case None
    with Cons.prems p ap have "validate_loop tp sub xs ?nv = Inr pl"
      by (simp add: Let_def)
    from Cons.IH [OF this] show ?thesis by simp
  next
    case (Some s)
    with Cons.prems p ap obtain nv3 where a: "pl_attach_subarray ?nv s = (None, nv3)"
      and l: "validate_loop tp sub xs nv3 = Inr pl"
      by (auto simp: Let_def split: prod.splits option.splits)
    from a have "lookup nv3 \<noteq> None"
      by (auto simp: pl_attach_subarray_def split: prod.splits)
    from Cons.IH [OF l] this show ?thesis by simp
  qed
qed

lemma validate_pattern_type:
  "validate_entry tp val = Inr val1 \<Longrightarrow> validate_entry tp val1 = Inr val2 \<Longrightarrow>
   validate_pattern tp (PTuple [PStr ''type'', PStr pat, val]) = Inr (PStr ''type'', PStr pat, val2)"
  by (simp add: validate_pattern_def unpack_def)

lemma validate_scalar:
  assumes "\<not> is_list (Py v)" "validate_entry tp v = Inr v'" "validate_entry tp v' = Inr v'"
  shows "validate tp (Py v) =
           Inr \<lparr> data = [(PStr ''type'', PStr ''*'', v')],
                 lookup = Some (new_lookup [(PStr ''type'', PStr ''*'', v')]),
                 pl_subarray = None \<rparr>"
  using assms
  by (simp add: validate_def validate_pattern_type [of tp v' v' v'] append_def
        single_to_pattern_def empty_pattern_list_def)

lemma attach_scalar:
  "attach_subarray (new_lookup [(PStr ''type'', PStr ''*'', v')]) sub =
     (None, (new_lookup [(PStr ''type'', PStr ''*'', v')])
        \<lparr> lookup_subarray := Some sub,
          value_for_tel_id := Some (\<lambda>n. last_value (filter (touches_id sub n) [(PStr ''type'', PStr ''*'', v')])),
          value_for_type := Some (\<lambda>t. last_value (filter (touches_type sub t) [(PStr ''type'', PStr ''*'', v')])),
          type_strs := Some (set (telescope_types sub)) \<rparr>)"
  by (rule attach_new_lookup [OF replay_valid]) simp

subsection \<open>A scalar\<close>

text \<open>An \<^verbatim>\<open>int\<close> of at most 53 bits is converted to a float without rounding.\<close>

lemma bit_length_le: "n < 2 ^ k \<Longrightarrow> bit_length n \<le> k"
proof (induction k arbitrary: n)
  case 0
  then show ?case by (simp add: bit_length.simps)
next
  case (Suc k)
  from Suc.prems have "n div 2 < 2 ^ k" by simp
  then have "bit_length (n div 2) \<le> k" by (rule Suc.IH)
  then show ?case by (subst bit_length.simps) simp
qed

lemma float_of_int_small: "\<bar>n\<bar> < 2 ^ 53 \<Longrightarrow> float_of_int n = Inr (of_int n)"
proof -
  assume a: "\<bar>n\<bar> < 2 ^ 53"
  let ?m = "nat \<bar>n\<bar>"
  from a have "?m < 2 ^ 53" by (simp add: nat_less_iff)
  then have e: "bit_length ?m - 53 = 0" using bit_length_le [of ?m 53] by simp
  have lt: "?m < 2 ^ 1024"
    using \<open>?m < 2 ^ 53\<close> by (rule less_trans) simp
  have s: "sgn n * int ?m = n" by (simp add: sgn_if)
  show ?thesis
    unfolding float_of_int_def Let_def e using lt s by (simp add: not_le)
qed

text \<open>
  Claim C2, amended. For every value \<open>v\<close> that is not a list and that the inner trait
  accepts, giving \<open>v'\<close> (which the inner trait accepts unchanged), and for every subarray:
  validation gives the single pattern \<^verbatim>\<open>("type", "*", v')\<close>, attaching succeeds, and then
  the lookup of \<^verbatim>\<open>None\<close> and of every telescope id of every known type give \<open>v'\<close>. When the
  inner trait returns \<open>v\<close> itself, that is the claim.
\<close>

theorem scalar_normalised:
  assumes "\<not> is_list (Py v)"
    and "validate_entry tp v = Inr v'"
    and "validate_entry tp v' = Inr v'"
  shows "\<exists>pl pl' lk.
           validate tp (Py v) = Inr pl
           \<and> data pl = [(PStr ''type'', PStr ''*'', v')]
           \<and> pl_attach_subarray pl sub = (None, pl')
           \<and> tel pl' = Inr lk
           \<and> getitem lk PNone = Inr v'
           \<and> (\<forall>t \<in> set (telescope_types sub).
                 \<forall>n \<in> set (get_tel_ids_for_type sub t). getitem lk (PInt n) = Inr v')"
proof -
  let ?ps = "[(PStr ''type'', PStr ''*'', v')]"
  let ?pl = "\<lparr> data = ?ps, lookup = Some (new_lookup ?ps), pl_subarray = None \<rparr>"
  let ?lk = "snd (attach_subarray (new_lookup ?ps) sub)"
  let ?pl' = "?pl\<lparr> pl_subarray := Some sub, lookup := Some ?lk \<rparr>"
  have 1: "validate tp (Py v) = Inr ?pl"
    using assms by (rule validate_scalar)
  have 2: "pl_attach_subarray ?pl sub = (None, ?pl')"
    by (simp add: pl_attach_subarray_def attach_scalar)
  have 3: "tel ?pl' = Inr ?lk"
    by (simp add: tel_def)
  have 4: "getitem ?lk PNone = Inr v'"
    by (simp add: attach_scalar getitem_def new_lookup_def)
  have 5: "getitem ?lk (PInt n) = Inr v'"
    if "t \<in> set (telescope_types sub)" "n \<in> set (get_tel_ids_for_type sub t)" for t n
    using that by (auto simp: attach_scalar getitem_def get_tel_id_def last_value_def)
  from 1 2 3 4 5 show ?thesis
    by (intro exI [of _ ?pl] exI [of _ ?pl'] exI [of _ ?lk]) simp
qed

theorem scalar_normalised_witness:
  "\<not> is_list (Py (PInt 3))
   \<and> validate_entry FloatTelescopeParameter (PInt 3) = Inr (PFloat 3)
   \<and> validate_entry FloatTelescopeParameter (PFloat 3) = Inr (PFloat 3)
   \<and> (\<exists>pl pl' lk.
         validate FloatTelescopeParameter (Py (PInt 3)) = Inr pl
         \<and> data pl = [(PStr ''type'', PStr ''*'', PFloat 3)]
         \<and> pl_attach_subarray pl example_subarray = (None, pl')
         \<and> tel pl' = Inr lk
         \<and> getitem lk PNone = Inr (PFloat 3)
         \<and> (\<forall>t \<in> set (telescope_types example_subarray).
               \<forall>n \<in> set (get_tel_ids_for_type example_subarray t).
                 getitem lk (PInt n) = Inr (PFloat 3)))"
proof -
  have a: "\<not> is_list (Py (PInt 3))" by simp
  have b: "validate_entry FloatTelescopeParameter (PInt 3) = Inr (PFloat 3)"
    by (simp add: validate_entry_def FloatTelescopeParameter_def float_of_int_small)
  have c: "validate_entry FloatTelescopeParameter (PFloat 3) = Inr (PFloat 3)"
    by (simp add: validate_entry_def FloatTelescopeParameter_def)
  from a b c scalar_normalised [OF a b c, of example_subarray] show ?thesis
    by blast
qed

text \<open>
  The claim as stated, for every scalar, fails: an \<^verbatim>\<open>IntTelescopeParameter\<close> rejects the
  string \<^verbatim>\<open>"abc"\<close> with \<^verbatim>\<open>TraitError\<close>, so nothing is normalised.
\<close>

theorem scalar_rejected_counterexample:
  "validate IntTelescopeParameter (Py (PStr ''abc'')) = Inl (TraitError InvalidValue)"
  by (simp add: validate_def validate_entry_def IntTelescopeParameter_def)

subsection \<open>Malformed patterns\<close>

text \<open>
  What the loop of \<^verbatim>\<open>validate\<close> rejects once the pattern has three components and its
  value is accepted: a command that is no string, a command other than \<^verbatim>\<open>"type"\<close> and
  \<^verbatim>\<open>"id"\<close>, a \<^verbatim>\<open>"type"\<close> argument that is no string and an \<^verbatim>\<open>"id"\<close> argument on which
  \<^verbatim>\<open>int\<close> raises \<^verbatim>\<open>ValueError\<close> all end in \<^verbatim>\<open>TraitError\<close>; an \<^verbatim>\<open>"id"\<close> argument on which
  \<^verbatim>\<open>int\<close> raises \<^verbatim>\<open>TypeError\<close> ends in that \<^verbatim>\<open>TypeError\<close>.
\<close>

lemma validate_pattern_rejects:
  assumes "unpack x = Inr (command, arg, val)" and "validate_entry tp val = Inr val1"
  shows "(\<forall>c. command \<noteq> PStr c) \<longrightarrow> validate_pattern tp x = Inl (TraitError CommandNotString)"
    and "command = PStr c \<and> c \<notin> {''type'', ''id''} \<longrightarrow>
           validate_pattern tp x = Inl (TraitError CommandNotTypeOrId)"
    and "command = PStr ''type'' \<and> (\<forall>pat. arg \<noteq> PStr pat) \<longrightarrow>
           validate_pattern tp x = Inl (TraitError TypeArgNotString)"
    and "command = PStr ''id'' \<and> py_int arg = Inl (ValueError ve) \<longrightarrow>
           validate_pattern tp x = Inl (TraitError IdArgNotInt)"
    and "command = PStr ''id'' \<and> py_int arg = Inl TypeError \<longrightarrow>
           validate_pattern tp x = Inl TypeError"
  using assms
  by (auto simp: validate_pattern_def split: pyval.splits)

text \<open>
  Claim C7 at the input \<^verbatim>\<open>[("id", None, 1.0)]\<close> of a \<^verbatim>\<open>FloatTelescopeParameter\<close>: the
  argument is not integer-coercible, and validation raises \<^verbatim>\<open>TypeError\<close>, not \<^verbatim>\<open>TraitError\<close>:
  the \<^verbatim>\<open>except\<close> clause around \<^verbatim>\<open>int(arg)\<close> names \<^verbatim>\<open>ValueError\<close> only.
\<close>

theorem id_argument_none_raises_type_error:
  "validate FloatTelescopeParameter (Py (PList [PTuple [PStr ''id'', PNone, PFloat 1]])) = Inl TypeError"
  by (simp add: validate_def validate_pattern_def unpack_def validate_entry_def
        FloatTelescopeParameter_def)

subsection \<open>Assignment to a bound field\<close>

text \<open>
  When the old value is bound to a subarray and the new value validates to a pattern list
  that has a lookup, \<^verbatim>\<open>set\<close> stores the new list attached to that subarray.
\<close>

lemma set_trait_rebinds:
  assumes "pl_subarray old = Some sub"
    and "is_list value"
    and "validate tp value = Inr new_value"
    and "lookup new_value = Some lk"
  shows "set_trait tp default_value (Some old) value =
           (fst (attach_subarray lk sub),
            Some (new_value\<lparr> pl_subarray := Some sub, lookup := Some (snd (attach_subarray lk sub)) \<rparr>))"
  using assms
  by (simp add: set_trait_def pl_attach_subarray_def split: prod.splits)

lemma bound_example_eq:
  "pl_subarray bound_example = Some example_subarray
   \<and> data bound_example = [(PStr ''type'', PStr ''*'', PFloat 1)]
   \<and> (\<exists>lk. tel bound_example = Inr lk \<and> getitem lk (PInt 7) = Inr (PFloat 1))"
proof -
  have v: "validate_entry FloatTelescopeParameter (PFloat 1) = Inr (PFloat 1)"
    by (simp add: validate_entry_def FloatTelescopeParameter_def)
  have "\<not> is_list (Py (PFloat 1))" by simp
  from validate_scalar [OF this v v] show ?thesis
    by (simp add: bound_example_def pl_attach_subarray_def attach_scalar tel_def getitem_def
          get_tel_id_def last_value_def example_subarray_def)
qed

text \<open>
  Claim C6 at the input \<^verbatim>\<open>[]\<close>, assigned to a field bound to the example catalogue: the
  empty list validates to a pattern list without lookup (the lookup is created inside the
  loop), \<^verbatim>\<open>set\<close> stores it and then raises \<^verbatim>\<open>AttributeError\<close> when it attaches the old
  subarray; the stored value has no lookup, so \<^verbatim>\<open>tel\<close> raises \<^verbatim>\<open>RuntimeError\<close>.
\<close>

theorem set_empty_list_on_bound_field:
  "set_trait FloatTelescopeParameter None (Some bound_example) (Py (PList []))
     = (Some AttributeError,
        Some \<lparr> data = [], lookup = None, pl_subarray = Some example_subarray \<rparr>)
   \<and> tel \<lparr> data = [], lookup = None, pl_subarray = Some example_subarray \<rparr> = Inl RuntimeError"
  using bound_example_eq
  by (simp add: set_trait_def validate_def empty_pattern_list_def pl_attach_subarray_def tel_def)

section \<open>Validation of a \<^verbatim>\<open>Path\<close>\<close>

lemma partition_tail_prefix:
  assumes "sep \<noteq> []"
  shows "partition_tail sep (sep @ name) = name"
proof -
  from assms obtain c cs where e: "sep @ name = c # cs"
    by (cases "sep @ name") auto
  have "take (length sep) (c # cs) = sep" and "drop (length sep) (c # cs) = name"
    by (simp_all flip: e)
  then show ?thesis
    by (simp add: e)
qed

text \<open>
  Claim C8, amended. Validation dispatches on the scheme of the parsed string: the empty string
  (after expansion) fails with \<^verbatim>\<open>TraitError\<close>; with an empty scheme or \<^verbatim>\<open>file\<close> the path
  \<^verbatim>\<open>Path(netloc, path)\<close> goes on to the constraints; with \<^verbatim>\<open>dataset\<close> the path is the one
  \<^verbatim>\<open>get_dataset_path\<close> returns for what follows \<^verbatim>\<open>dataset://\<close>, or its failure; every scheme
  other than \<^verbatim>\<open>http\<close>, \<^verbatim>\<open>https\<close>, \<^verbatim>\<open>dataset\<close>, \<^verbatim>\<open>file\<close> and the empty one fails with
  \<^verbatim>\<open>TraitError\<close>. The path of a \<^verbatim>\<open>dataset://name\<close> input goes on to \<^verbatim>\<open>absolute()\<close> and to
  the constraints like any other: the input returns exactly the path the collaborator
  returns for \<^verbatim>\<open>name\<close> when that path is absolute and the constraints of the trait hold of
  it.
\<close>

theorem scheme_dispatch:
  "(expandvars env s = [] \<longrightarrow> path_validate tr env (VStr s) = Inl (TraitError InvalidValue))
   \<and> (expandvars env s \<noteq> [] \<and> urlparse env (expandvars env s) = Some (scheme, netloc, path) \<longrightarrow>
        (scheme \<in> {[], ''file''} \<longrightarrow>
           path_validate tr env (VStr s) = check_constraints tr env (join_path env netloc path))
      \<and> (scheme = ''dataset'' \<longrightarrow>
           path_validate tr env (VStr s) =
             (case get_dataset_path env (partition_tail ''dataset://'' (expandvars env s)) of
                Inl e \<Rightarrow> Inl e
              | Inr p \<Rightarrow> check_constraints tr env p))
      \<and> (scheme \<notin> {''http'', ''https'', ''dataset'', ''file'', []} \<longrightarrow>
           path_validate tr env (VStr s) = Inl (TraitError InvalidValue)))
   \<and> (urlparse env (''dataset://'' @ name) = Some (''dataset'', netloc, path)
        \<and> expandvars env s = ''dataset://'' @ name
        \<and> get_dataset_path env name = Inr p
        \<and> absolute env p = p
        \<and> \<not> constraints_violated tr env p \<longrightarrow>
        path_validate tr env (VStr s) = Inr (VPath p))"
  by (auto simp: path_validate_def resolve_def check_constraints_def constraints_violated_def
        partition_tail_prefix Let_def split: option.splits sum.splits)

theorem scheme_dispatch_witness:
  "expandvars example_env [] = []
   \<and> path_validate default_path_trait example_env (VStr []) = Inl (TraitError InvalidValue)
   \<and> urlparse example_env (''dataset://'' @ ''gamma.simtel.gz'') = Some (''dataset'', ''gamma.simtel.gz'', [])
   \<and> expandvars example_env ''dataset://gamma.simtel.gz'' = ''dataset://'' @ ''gamma.simtel.gz''
   \<and> get_dataset_path example_env ''gamma.simtel.gz'' = Inr ''/data/gamma.simtel.gz''
   \<and> absolute example_env ''/data/gamma.simtel.gz'' = ''/data/gamma.simtel.gz''
   \<and> path_validate default_path_trait example_env (VStr ''dataset://gamma.simtel.gz'')
       = Inr (VPath ''/data/gamma.simtel.gz'')
   \<and> urlparse example_env (expandvars example_env ''ftp://host/run.h5'') = Some (''ftp'', ''host'', ''/run.h5'')
   \<and> path_validate default_path_trait example_env (VStr ''ftp://host/run.h5'')
       = Inl (TraitError InvalidValue)"
proof -
  have a: "expandvars example_env [] = []"
    by (simp add: example_env_def)
  have b: "urlparse example_env (''dataset://'' @ ''gamma.simtel.gz'') = Some (''dataset'', ''gamma.simtel.gz'', [])"
    and c: "expandvars example_env ''dataset://gamma.simtel.gz'' = ''dataset://'' @ ''gamma.simtel.gz''"
    and d: "get_dataset_path example_env ''gamma.simtel.gz'' = Inr ''/data/gamma.simtel.gz''"
    and e: "absolute example_env ''/data/gamma.simtel.gz'' = ''/data/gamma.simtel.gz''"
    and f: "\<not> constraints_violated default_path_trait example_env ''/data/gamma.simtel.gz''"
    and g: "urlparse example_env (expandvars example_env ''ftp://host/run.h5'') = Some (''ftp'', ''host'', ''/run.h5'')"
    and h: "expandvars example_env ''ftp://host/run.h5'' \<noteq> []"
    and i: "''ftp'' \<notin> {''http'', ''https'', ''dataset'', ''file'', []}"
    by (simp_all add: example_env_def constraints_violated_def default_path_trait_def)
  note d1 = scheme_dispatch [where env = example_env and s = "[]" and tr = default_path_trait,
      THEN conjunct1, THEN mp, OF a]
  have d2: "path_validate default_path_trait example_env (VStr ''dataset://gamma.simtel.gz'')
              = Inr (VPath ''/data/gamma.simtel.gz'')"
    by (rule scheme_dispatch [where netloc = "''gamma.simtel.gz''" and path = "[]"
          and name = "''gamma.simtel.gz''", THEN conjunct2, THEN conjunct2, THEN mp])
       (intro conjI b c d e f)
  note d3 = mp [OF scheme_dispatch [where env = example_env and s = "''ftp://host/run.h5''"
        and tr = default_path_trait and scheme = "''ftp''" and netloc = "''host''"
        and path = "''/run.h5''", THEN conjunct2, THEN conjunct1] conjI [OF h g],
      THEN conjunct2, THEN conjunct2, THEN mp, OF i]
  show ?thesis
    by (intro conjI a d1 b c d e d2 g d3)
qed

text \<open>
  Without that proviso the claim fails: for a trait with \<^verbatim>\<open>exists=False\<close> the input
  \<^verbatim>\<open>dataset://gamma.simtel.gz\<close>, whose path the collaborator returns and which exists, is
  refused with "must not exist".
\<close>

theorem dataset_path_refused_counterexample:
  "get_dataset_path example_env ''gamma.simtel.gz'' = Inr ''/data/gamma.simtel.gz''
   \<and> path_validate \<lparr> exists = Some False, directory_ok = True, file_ok = True, allow_none = False \<rparr>
         example_env (VStr ''dataset://gamma.simtel.gz'')
       = Inl (TraitError (MustNotExist ''/data/gamma.simtel.gz''))"
  by (simp add: path_validate_def resolve_def check_constraints_def example_env_def)

text \<open>
  Claim C9, amended. Once the string has resolved to a path \<open>p\<close>, validation looks at
  \<^verbatim>\<open>p.absolute()\<close>: it fails with one of the four \<^verbatim>\<open>TraitError\<close>s of the constraints exactly
  when the constraints disagree with the file system ("does not exist" when existence is
  required, "must not exist" when it is forbidden, "must not be a directory", "must not
  be a file"), and returns \<^verbatim>\<open>p.absolute()\<close> otherwise: the path with the working directory
  put before it when it is relative, its \<^verbatim>\<open>..\<close> components and symbolic links left as they
  are.
\<close>

theorem path_constraints:
  assumes "resolve env (expandvars env s) = Inr p"
  shows "(exists tr = Some True \<and> \<not> path_exists env (absolute env p) \<longrightarrow>
            path_validate tr env (VStr s) = Inl (TraitError (DoesNotExist (absolute env p))))
       \<and> (exists tr = Some False \<and> path_exists env (absolute env p) \<longrightarrow>
            path_validate tr env (VStr s) = Inl (TraitError (MustNotExist (absolute env p))))
       \<and> (exists tr \<noteq> Some False \<and> path_exists env (absolute env p)
            \<and> is_dir env (absolute env p) \<and> \<not> directory_ok tr \<longrightarrow>
            path_validate tr env (VStr s) = Inl (TraitError (MustNotBeDirectory (absolute env p))))
       \<and> (exists tr \<noteq> Some False \<and> path_exists env (absolute env p)
            \<and> \<not> (is_dir env (absolute env p) \<and> \<not> directory_ok tr)
            \<and> is_file env (absolute env p) \<and> \<not> file_ok tr \<longrightarrow>
            path_validate tr env (VStr s) = Inl (TraitError (MustNotBeFile (absolute env p))))
       \<and> (constraints_violated tr env (absolute env p) \<longrightarrow>
            path_validate tr env (VStr s) \<in>
              {Inl (TraitError (DoesNotExist (absolute env p))),
               Inl (TraitError (MustNotExist (absolute env p))),
               Inl (TraitError (MustNotBeDirectory (absolute env p))),
               Inl (TraitError (MustNotBeFile (absolute env p)))})
       \<and> (path_validate tr env (VStr s) = Inr (VPath (absolute env p)))
            = (\<not> constraints_violated tr env (absolute env p))"
proof -
  have r: "path_validate tr env (VStr s) = check_constraints tr env p"
    using assms by (simp add: path_validate_def)
  show ?thesis
    unfolding r
    by (cases "exists tr"; cases "path_exists env (absolute env p)")
       (auto simp: check_constraints_def constraints_violated_def Let_def)
qed

theorem path_constraints_witness:
  "resolve example_env (expandvars example_env ''missing.h5'') = Inr ''missing.h5''
   \<and> path_validate \<lparr> exists = Some True, directory_ok = True, file_ok = False, allow_none = False \<rparr>
         example_env (VStr ''missing.h5'')
       = Inl (TraitError (DoesNotExist ''/cwd/missing.h5''))
   \<and> resolve example_env (expandvars example_env ''/data'') = Inr ''/data''
   \<and> path_validate \<lparr> exists = None, directory_ok = True, file_ok = False, allow_none = False \<rparr>
         example_env (VStr ''/data'')
       = Inr (VPath ''/data'')"
proof -
  have a: "resolve example_env (expandvars example_env ''missing.h5'') = Inr ''missing.h5''"
    by (simp add: resolve_def example_env_def)
  have b: "resolve example_env (expandvars example_env ''/data'') = Inr ''/data''"
    by (simp add: resolve_def example_env_def)
  have c: "absolute example_env ''missing.h5'' = ''/cwd/missing.h5''"
    and d: "absolute example_env ''/data'' = ''/data''"
    by (simp_all add: example_env_def)
  have e: "\<not> path_exists example_env ''/cwd/missing.h5''"
    and f: "\<not> constraints_violated
              \<lparr> exists = None, directory_ok = True, file_ok = False, allow_none = False \<rparr>
              example_env ''/data''"
    by (simp_all add: example_env_def constraints_violated_def)
  show ?thesis
    using a b e f
      path_constraints [OF a,
        of "\<lparr> exists = Some True, directory_ok = True, file_ok = False, allow_none = False \<rparr>"]
      path_constraints [OF b,
        of "\<lparr> exists = None, directory_ok = True, file_ok = False, allow_none = False \<rparr>"]
    by (simp add: c d)
qed

text \<open>
  The path returned is not canonical: \<^verbatim>\<open>/data/../data/run.h5\<close>, an existing file, comes back
  as it is and not as \<^verbatim>\<open>/data/run.h5\<close>.
\<close>

theorem path_not_canonical_counterexample:
  "path_validate default_path_trait example_env (VStr ''/data/../data/run.h5'')
     = Inr (VPath ''/data/../data/run.h5'')"
  by (simp add: path_validate_def resolve_def check_constraints_def example_env_def
        default_path_trait_def)

end
